theory Spec2Isabelle
  imports Main "HOL-Library.Word"
begin

unbundle bit_operations_syntax

section \<open>Python values\<close>

text \<open>
  A Python \<^verbatim>\<open>str\<close> is a sequence of Unicode code points, a \<^verbatim>\<open>bytes\<close> object a
  sequence of numbers below 256. The values that flow through \<^verbatim>\<open>job.py\<close> and
  \<^verbatim>\<open>master.py\<close> (input data, ids, results) are \<^verbatim>\<open>None\<close>, integers, text or
  bytes; floating point results are not modelled.
\<close>

type_synonym pystr = "nat list"
type_synonym pybytes = "nat list"

definition str :: "string \<Rightarrow> pystr" where
  "str s = map of_char s"

datatype pyval = PyNone | PyInt int | PyStr pystr | PyBytes pybytes

datatype error =
  TypeError | UnicodeEncodeError | AttributeError | KeyError | IndexError | NameError | ValueError

text \<open>A function object; \<^verbatim>\<open>inspect.getsource\<close> reads its source text.\<close>

datatype pyfunction = Function (getsource: pystr)

subsection \<open>\<^verbatim>\<open>bytes(s, 'UTF-8')\<close>\<close>

text \<open>
  The encoder of the standard library: one to four bytes per code point; a surrogate
  (\<^verbatim>\<open>U+D800\<close> to \<^verbatim>\<open>U+DFFF\<close>) raises \<^verbatim>\<open>UnicodeEncodeError\<close>. No Python string holds a
  number from \<^verbatim>\<open>0x110000\<close> on (\<^verbatim>\<open>chr\<close> raises \<^verbatim>\<open>ValueError\<close> there).
\<close>

definition utf8_char :: "nat \<Rightarrow> error + pybytes" where
  "utf8_char c =
     (if c < 0x80 then Inr [c]
      else if c < 0x800 then Inr [0xC0 + c div 0x40, 0x80 + c mod 0x40]
      else if 0xD800 \<le> c \<and> c \<le> 0xDFFF then Inl UnicodeEncodeError
      else if c < 0x10000 then
        Inr [0xE0 + c div 0x1000, 0x80 + c div 0x40 mod 0x40, 0x80 + c mod 0x40]
      else if c < 0x110000 then
        Inr [0xF0 + c div 0x40000, 0x80 + c div 0x1000 mod 0x40,
             0x80 + c div 0x40 mod 0x40, 0x80 + c mod 0x40]
      else Inl ValueError)"

fun utf8_encode :: "pystr \<Rightarrow> error + pybytes" where
  "utf8_encode [] = Inr []"
| "utf8_encode (c # cs) =
     (case utf8_char c of
        Inl e \<Rightarrow> Inl e
      | Inr b \<Rightarrow> (case utf8_encode cs of Inl e \<Rightarrow> Inl e | Inr bs \<Rightarrow> Inr (b @ bs)))"

subsection \<open>\<^verbatim>\<open>hashlib.md5\<close>\<close>

text \<open>
  MD5 as RFC 1321 defines it: the message is padded with \<^verbatim>\<open>0x80\<close>, zeros and its bit
  length (64 bits, little endian) to a multiple of 64 bytes; each block of sixteen
  little-endian 32-bit words goes through 64 steps; the digest is the four state words,
  little endian. \<^verbatim>\<open>hexdigest\<close> writes each byte as two lower-case hexadecimal digits.
\<close>

definition md5_s :: "nat list" where
  "md5_s = concat (replicate 4 [7, 12, 17, 22]) @ concat (replicate 4 [5, 9, 14, 20]) @
           concat (replicate 4 [4, 11, 16, 23]) @ concat (replicate 4 [6, 10, 15, 21])"

definition md5_K :: "32 word list" where
  "md5_K =
    [0xd76aa478, 0xe8c7b756, 0x242070db, 0xc1bdceee, 0xf57c0faf, 0x4787c62a, 0xa8304613,
     0xfd469501, 0x698098d8, 0x8b44f7af, 0xffff5bb1, 0x895cd7be, 0x6b901122, 0xfd987193,
     0xa679438e, 0x49b40821, 0xf61e2562, 0xc040b340, 0x265e5a51, 0xe9b6c7aa, 0xd62f105d,
     0x02441453, 0xd8a1e681, 0xe7d3fbc8, 0x21e1cde6, 0xc33707d6, 0xf4d50d87, 0x455a14ed,
     0xa9e3e905, 0xfcefa3f8, 0x676f02d9, 0x8d2a4c8a, 0xfffa3942, 0x8771f681, 0x6d9d6122,
     0xfde5380c, 0xa4beea44, 0x4bdecfa9, 0xf6bb4b60, 0xbebfbc70, 0x289b7ec6, 0xeaa127fa,
     0xd4ef3085, 0x04881d05, 0xd9d4d039, 0xe6db99e5, 0x1fa27cf8, 0xc4ac5665, 0xf4292244,
     0x432aff97, 0xab9423a7, 0xfc93a039, 0x655b59c3, 0x8f0ccc92, 0xffeff47d, 0x85845dd1,
     0x6fa87e4f, 0xfe2ce6e0, 0xa3014314, 0x4e0811a1, 0xf7537e82, 0xbd3af235, 0x2ad7d2bb,
     0xeb86d391]"

definition word_bytes :: "nat \<Rightarrow> 'a::len word \<Rightarrow> pybytes" where
  "word_bytes n w = map (\<lambda>i. unat (take_bit 8 (drop_bit (8 * i) w))) [0..<n]"

definition le_word :: "pybytes \<Rightarrow> 32 word" where
  "le_word bs = foldr (\<lambda>b acc. of_nat b + 256 * acc) bs 0"

definition md5_pad :: "pybytes \<Rightarrow> pybytes" where
  "md5_pad bs =
     bs @ [0x80] @ replicate ((119 - length bs mod 64) mod 64) 0 @
     word_bytes 8 (of_nat (8 * length bs) :: 64 word)"

type_synonym md5_state = "32 word \<times> 32 word \<times> 32 word \<times> 32 word"

fun md5_step :: "32 word list \<Rightarrow> md5_state \<Rightarrow> nat \<Rightarrow> md5_state" where
  "md5_step M (A, B, C, D) i =
     (let (F, g) =
            (if i < 16 then ((B AND C) OR (NOT B AND D), i)
             else if i < 32 then ((D AND B) OR (NOT D AND C), (5 * i + 1) mod 16)
             else if i < 48 then (B XOR C XOR D, (3 * i + 5) mod 16)
             else (C XOR (B OR NOT D), (7 * i) mod 16));
          F' = F + A + md5_K ! i + M ! g
      in (D, B + word_rotl (md5_s ! i) F', B, C))"

fun md5_block :: "md5_state \<Rightarrow> pybytes \<Rightarrow> md5_state" where
  "md5_block (a0, b0, c0, d0) blk =
     (let M = map (\<lambda>j. le_word (take 4 (drop (4 * j) blk))) [0..<16] in
      case foldl (md5_step M) (a0, b0, c0, d0) [0..<64] of
        (A, B, C, D) \<Rightarrow> (a0 + A, b0 + B, c0 + C, d0 + D))"

definition md5_digest :: "pybytes \<Rightarrow> pybytes" where
  "md5_digest bs =
     (let p = md5_pad bs;
          blocks = map (\<lambda>i. take 64 (drop (64 * i) p)) [0..<length p div 64] in
      case foldl md5_block (0x67452301, 0xefcdab89, 0x98badcfe, 0x10325476) blocks of
        (a, b, c, d) \<Rightarrow> concat (map (word_bytes 4) [a, b, c, d]))"

definition hexdigit :: "nat \<Rightarrow> nat" where
  "hexdigit d = (if d < 10 then 48 + d else 87 + d)"

definition md5_hexdigest :: "pybytes \<Rightarrow> pystr" where
  "md5_hexdigest bs = concat (map (\<lambda>b. [hexdigit (b div 16), hexdigit (b mod 16)]) (md5_digest bs))"

section \<open>\<^verbatim>\<open>job.py\<close>\<close>

subsection \<open>\<^verbatim>\<open>compute_job_id\<close>\<close>

text \<open>
  Each of the four arguments goes through the same test: a \<^verbatim>\<open>bytes\<close> object is taken as
  it is, anything else is handed to \<^verbatim>\<open>bytes(x, 'UTF-8')\<close>, which encodes a string and
  raises \<^verbatim>\<open>TypeError\<close> for a value that is not a string.
\<close>

fun as_bytes :: "pyval \<Rightarrow> error + pybytes" where
  "as_bytes (PyBytes b) = Inr b"
| "as_bytes (PyStr s) = utf8_encode s"
| "as_bytes PyNone = Inl TypeError"
| "as_bytes (PyInt n) = Inl TypeError"

definition compute_job_id :: "pyval \<Rightarrow> pyval \<Rightarrow> pyval \<Rightarrow> pyval \<Rightarrow> error + pystr" where
  "compute_job_id input_data processor_code split_code combine_code =
     (case as_bytes input_data of Inl e \<Rightarrow> Inl e | Inr input_data_bytes \<Rightarrow>
       (case as_bytes processor_code of Inl e \<Rightarrow> Inl e | Inr processor_code_bytes \<Rightarrow>
         (case as_bytes split_code of Inl e \<Rightarrow> Inl e | Inr split_code_bytes \<Rightarrow>
           (case as_bytes combine_code of Inl e \<Rightarrow> Inl e | Inr combine_code_bytes \<Rightarrow>
              Inr (md5_hexdigest (input_data_bytes @ processor_code_bytes @
                                  split_code_bytes @ combine_code_bytes))))))"

text \<open>
  The specification's wording of the identifier: the byte representation of a text is
  its UTF-8 encoding, the one of a binary value is the value itself; the identifier is
  the hexadecimal MD5 digest of the four representations, concatenated in the order of
  the arguments. A text is a string of Unicode scalar values (code points that are not
  surrogates).
\<close>

definition scalar_value :: "nat \<Rightarrow> bool" where
  "scalar_value c = (c < 0xD800 \<or> (0xDFFF < c \<and> c < 0x110000))"

fun text_or_bytes :: "pyval \<Rightarrow> bool" where
  "text_or_bytes (PyBytes b) = True"
| "text_or_bytes (PyStr s) = list_all scalar_value s"
| "text_or_bytes PyNone = False"
| "text_or_bytes (PyInt n) = False"

definition utf8_bytes :: "nat \<Rightarrow> pybytes" where
  "utf8_bytes c = (case utf8_char c of Inl e \<Rightarrow> [] | Inr b \<Rightarrow> b)"

fun byte_representation :: "pyval \<Rightarrow> pybytes" where
  "byte_representation (PyBytes b) = b"
| "byte_representation (PyStr s) = concat (map utf8_bytes s)"
| "byte_representation PyNone = []"
| "byte_representation (PyInt n) = []"

definition job_id_spec :: "pyval \<Rightarrow> pyval \<Rightarrow> pyval \<Rightarrow> pyval \<Rightarrow> pystr" where
  "job_id_spec input_data processor_source split_source combine_source =
     md5_hexdigest (concat (map byte_representation
       [input_data, processor_source, split_source, combine_source]))"

subsection \<open>Task units\<close>

text \<open>
  Modelled from the spec: the class \<^verbatim>\<open>TaskUnit\<close> of the module \<^verbatim>\<open>taskunit\<close>, which is not
  among the sources. The specification gives it the fields \<^verbatim>\<open>id\<close>, \<^verbatim>\<open>job_id\<close>,
  \<^verbatim>\<open>data\<close>, \<^verbatim>\<open>processor\<close>, \<^verbatim>\<open>result\<close>, \<^verbatim>\<open>state\<close> and \<^verbatim>\<open>retries\<close>; the splitter
  fills in \<^verbatim>\<open>data\<close> and \<^verbatim>\<open>processor\<close> only, the result is absent before a result message.
\<close>

record TaskUnit =
  tu_id :: pyval
  tu_job_id :: pyval
  tu_data :: pyval
  tu_processor :: "pyfunction option"
  tu_result :: pyval
  tu_state :: pyval
  tu_retries :: pyval

definition new_TaskUnit :: "pyval \<Rightarrow> pyfunction option \<Rightarrow> TaskUnit" where
  "new_TaskUnit data processor =
     \<lparr>tu_id = PyNone, tu_job_id = PyNone, tu_data = data, tu_processor = processor,
      tu_result = PyNone, tu_state = PyNone, tu_retries = PyInt 0\<rparr>"

subsection \<open>\<^verbatim>\<open>Splitter\<close>\<close>

text \<open>
  \<^verbatim>\<open>input_data.split('\n')\<close>: the pieces between the occurrences of the separator,
  empty pieces included. \<open>cur\<close> is the piece being read.
\<close>

fun split_from :: "'a list \<Rightarrow> 'a \<Rightarrow> 'a list \<Rightarrow> 'a list list" where
  "split_from cur sep [] = [cur]"
| "split_from cur sep (c # cs) =
     (if c = sep then cur # split_from [] sep cs else split_from (cur @ [c]) sep cs)"

definition str_split :: "pystr \<Rightarrow> nat \<Rightarrow> pystr list" where
  "str_split s sep = split_from [] sep s"

text \<open>\<^verbatim>\<open>sep.join(pieces)\<close>, the inverse of splitting.\<close>

fun str_join :: "'a \<Rightarrow> 'a list list \<Rightarrow> 'a list" where
  "str_join sep [] = []"
| "str_join sep [l] = l"
| "str_join sep (l # ls) = l @ sep # str_join sep ls"

text \<open>
  A \<^verbatim>\<open>Splitter\<close> object. Its method \<^verbatim>\<open>split\<close> is the one of the class unless the
  attribute was assigned on the instance, as \<^verbatim>\<open>create_job.py\<close> does with the job file's
  function. A generator is modelled by the list of the units it yields, or by the
  exception it raises.
\<close>

record Splitter =
  split_attr :: "(pyval \<Rightarrow> pyfunction option \<Rightarrow> error + TaskUnit list) option"

definition new_Splitter :: Splitter where
  "new_Splitter = \<lparr>split_attr = None\<rparr>"

text \<open>
  The method of the class. The newline is code point 10. \<^verbatim>\<open>bytes.split\<close> refuses a
  string separator (\<^verbatim>\<open>TypeError\<close>); \<^verbatim>\<open>None\<close> and integers have no \<^verbatim>\<open>split\<close>.
\<close>

fun Splitter_split :: "pyval \<Rightarrow> pyfunction option \<Rightarrow> error + TaskUnit list" where
  "Splitter_split (PyStr input_data) processor =
     Inr (map (\<lambda>input_line. new_TaskUnit (PyStr input_line) processor)
            (str_split input_data 10))"
| "Splitter_split (PyBytes input_data) processor = Inl TypeError"
| "Splitter_split PyNone processor = Inl AttributeError"
| "Splitter_split (PyInt n) processor = Inl AttributeError"

definition call_split :: "Splitter \<Rightarrow> pyval \<Rightarrow> pyfunction option \<Rightarrow> error + TaskUnit list" where
  "call_split s input_data processor =
     (case split_attr s of
        None \<Rightarrow> Splitter_split input_data processor
      | Some f \<Rightarrow> f input_data processor)"

subsection \<open>\<^verbatim>\<open>Combiner\<close>\<close>

text \<open>
  The files written, by name. \<^verbatim>\<open>open(name, 'w')\<close> creates the file or empties it;
  failures of the file system itself are outside the model.
\<close>

type_synonym files = "pystr \<rightharpoonup> pystr"

record Combiner =
  combine_attr :: "(files \<Rightarrow> files \<times> error option) option"
  c_taskunits :: "TaskUnit list"

definition new_Combiner :: Combiner where
  "new_Combiner = \<lparr>combine_attr = None, c_taskunits = []\<rparr>"

definition add_taskunits :: "Combiner \<Rightarrow> TaskUnit list \<Rightarrow> Combiner" where
  "add_taskunits self tu = self\<lparr>c_taskunits := c_taskunits self @ tu\<rparr>"

text \<open>
  \<^verbatim>\<open>sum(results)\<close> starts from the integer 0 and adds the results from left to right;
  adding \<^verbatim>\<open>None\<close>, a string or bytes to an integer raises \<^verbatim>\<open>TypeError\<close>.
\<close>

fun sum_from :: "int \<Rightarrow> pyval list \<Rightarrow> error + int" where
  "sum_from acc [] = Inr acc"
| "sum_from acc (PyInt n # rs) = sum_from (acc + n) rs"
| "sum_from acc (r # rs) = Inl TypeError"

definition py_sum :: "pyval list \<Rightarrow> error + int" where
  "py_sum results = sum_from 0 results"

text \<open>\<^verbatim>\<open>json.dumps\<close> of an integer is its decimal text, whatever the indentation.\<close>

fun dec_nat :: "nat \<Rightarrow> pystr" where
  "dec_nat n = (if n < 10 then [48 + n] else dec_nat (n div 10) @ [48 + n mod 10])"

definition json_dumps :: "int \<Rightarrow> pystr" where
  "json_dumps i = (if i < 0 then 45 # dec_nat (nat (- i)) else dec_nat (nat i))"

text \<open>The number that a decimal text denotes.\<close>

definition dec_value :: "pystr \<Rightarrow> nat" where
  "dec_value ds = foldl (\<lambda>a d. 10 * a + (d - 48)) 0 ds"

text \<open>
  The method \<^verbatim>\<open>combine\<close> of the class. \<open>now\<close> is the text that
  \<^verbatim>\<open>time.strftime('%Y-%m-%d_%H:%M:%S')\<close> returns at the call. The result is the files
  after the call and the exception raised, if any.
\<close>

definition Combiner_combine :: "pystr \<Rightarrow> files \<Rightarrow> Combiner \<Rightarrow> files \<times> error option" where
  "Combiner_combine now fs self =
     (let taskunits = c_taskunits self;
          results = map tu_result taskunits in
      case py_sum results of
        Inl e \<Rightarrow> (fs, Some e)
      | Inr combined_result \<Rightarrow>
          (let json_string = json_dumps combined_result;
               result_file = str ''result_'' @ now
           in (fs(result_file \<mapsto> json_string), None)))"

definition call_combine :: "pystr \<Rightarrow> files \<Rightarrow> Combiner \<Rightarrow> files \<times> error option" where
  "call_combine now fs c =
     (case combine_attr c of None \<Rightarrow> Combiner_combine now fs c | Some f \<Rightarrow> f fs)"

subsection \<open>\<^verbatim>\<open>Job\<close>\<close>

text \<open>
  \<^verbatim>\<open>Job.__init__\<close> assigns the processor to \<^verbatim>\<open>self.__class__.processor\<close>: the attribute
  lives in the class object, shared by every instance, and an instance has no
  \<^verbatim>\<open>processor\<close> of its own. The class object is therefore a piece of state that the
  constructor reads and returns; \<^verbatim>\<open>j.processor\<close> is a lookup in it. A dictionary is an
  association list in insertion order. The attribute \<^verbatim>\<open>pending_taskunits\<close> does not
  exist until the master assigns it. The list \<^verbatim>\<open>noserialize\<close> of the base class
  \<^verbatim>\<open>Serializable\<close> is read by serialization only and is left out.
\<close>

record Job_class =
  class_processor :: "pyfunction option"

type_synonym ('k, 'v) dict = "('k \<times> 'v) list"

definition dict_set :: "('k, 'v) dict \<Rightarrow> 'k \<Rightarrow> 'v \<Rightarrow> ('k, 'v) dict" where
  "dict_set d k v =
     (if k \<in> set (map fst d) then map (\<lambda>(k', v'). if k' = k then (k', v) else (k', v')) d
      else d @ [(k, v)])"

definition dict_get :: "('k, 'v) dict \<Rightarrow> 'k \<Rightarrow> 'v option" where
  "dict_get d k = map_of d k"

definition dict_values :: "('k, 'v) dict \<Rightarrow> 'v list" where
  "dict_values d = map snd d"

record Job =
  job_id :: pyval
  input_data :: pyval
  splitter :: Splitter
  combiner :: Combiner
  taskunits :: "(pyval, TaskUnit) dict"
  pending_taskunits :: "int option"

definition get_processor :: "Job_class \<Rightarrow> Job \<Rightarrow> pyfunction option" where
  "get_processor cls self = class_processor cls"

text \<open>The arguments of the constructor, with the defaults of its signature.\<close>

record Job_args =
  arg_id :: pyval
  arg_input_data :: pyval
  arg_processor :: "pyfunction option"
  arg_splitter :: "Splitter option"
  arg_combiner :: "Combiner option"

definition Job_defaults :: Job_args where
  "Job_defaults =
     \<lparr>arg_id = PyNone, arg_input_data = PyNone, arg_processor = None,
      arg_splitter = None, arg_combiner = None\<rparr>"

definition Job_init :: "Job_class \<Rightarrow> Job_args \<Rightarrow> Job_class \<times> Job" where
  "Job_init cls a =
     (cls\<lparr>class_processor := arg_processor a\<rparr>,
      \<lparr>job_id = arg_id a,
       input_data = arg_input_data a,
       splitter = (case arg_splitter a of Some s \<Rightarrow> s | None \<Rightarrow> new_Splitter),
       combiner = (case arg_combiner a of Some c \<Rightarrow> c | None \<Rightarrow> new_Combiner),
       taskunits = [],
       pending_taskunits = None\<rparr>)"

text \<open>
  A call \<^verbatim>\<open>Job(k1=..., k2=...)\<close>: Python binds the keywords to the parameters of
  \<^verbatim>\<open>__init__\<close> before running its body, and raises \<^verbatim>\<open>TypeError\<close> for a keyword that the
  signature does not declare. \<open>keywords\<close> are the names written at the call.
\<close>

definition Job_parameters :: "string list" where
  "Job_parameters = [''id'', ''input_data'', ''processor'', ''splitter'', ''combiner'']"

definition Job_call :: "Job_class \<Rightarrow> string list \<Rightarrow> Job_args \<Rightarrow> error + Job_class \<times> Job" where
  "Job_call cls keywords a =
     (if set keywords \<subseteq> set Job_parameters then Inr (Job_init cls a) else Inl TypeError)"

section \<open>The collaborators of the sources\<close>

text \<open>
  The modules \<^verbatim>\<open>node\<close>, \<^verbatim>\<open>messenger\<close>, \<^verbatim>\<open>message\<close>, \<^verbatim>\<open>schedule\<close> and \<^verbatim>\<open>taskunit\<close> are
  imported by the sources and are not among them. What the sources use of them follows
  the specification.
\<close>

type_synonym address = "string \<times> nat"

text \<open>
  Modelled from the spec: the class \<^verbatim>\<open>RemoteNode\<close> of the module \<^verbatim>\<open>node\<close>, a known worker
  identified by its network address. The master constructs it from \<^verbatim>\<open>None\<close> and the
  address, and reads its attribute \<^verbatim>\<open>address\<close>.
\<close>

record RemoteNode =
  node_name :: pyval
  node_address :: address

definition new_RemoteNode :: "pyval \<Rightarrow> address \<Rightarrow> RemoteNode" where
  "new_RemoteNode name addr = \<lparr>node_name = name, node_address = addr\<rparr>"

text \<open>
  Modelled from the spec: the class \<^verbatim>\<open>Messenger\<close> of the module \<^verbatim>\<open>messenger\<close>. It keeps
  the address of each named destination, and the operations that send enqueue what they
  are given and return; delivery happens elsewhere. The queue is kept as one list, each
  entry with its destination.
\<close>

datatype 'job outbound =
  Out_job string 'job
| Out_taskunit address "string list" TaskUnit

record 'job Messenger =
  port :: nat
  destinations :: "string \<rightharpoonup> address"
  outbound_queue :: "'job outbound list"

definition new_Messenger :: "nat \<Rightarrow> 'job Messenger" where
  "new_Messenger p = \<lparr>port = p, destinations = Map.empty, outbound_queue = []\<rparr>"

definition register_destination :: "'job Messenger \<Rightarrow> string \<Rightarrow> address \<Rightarrow> 'job Messenger" where
  "register_destination m name addr = m\<lparr>destinations := (destinations m)(name \<mapsto> addr)\<rparr>"

definition send_job :: "'job Messenger \<Rightarrow> 'job \<Rightarrow> string \<Rightarrow> 'job Messenger" where
  "send_job m j name = m\<lparr>outbound_queue := outbound_queue m @ [Out_job name j]\<rparr>"

definition send_taskunit ::
    "'job Messenger \<Rightarrow> TaskUnit \<Rightarrow> address \<Rightarrow> string list \<Rightarrow> 'job Messenger" where
  "send_taskunit m tu addr attrs =
     m\<lparr>outbound_queue := outbound_queue m @ [Out_taskunit addr attrs tu]\<rparr>"

text \<open>
  Modelled from the spec: the class \<^verbatim>\<open>MinMakespan\<close> of the module \<^verbatim>\<open>schedule\<close>. Its state
  is the sequence of the cumulative loads of the slots, one per registered worker and in
  the order of registration; \<^verbatim>\<open>add_machine\<close> appends a slot with load zero;
  \<^verbatim>\<open>schedule_job\<close> selects the slot of least load, the lowest index among equal loads,
  adds the cost of one unit to it and returns its index. Scheduling without a slot is an
  error; the specification does not name the exception, \<open>ValueError\<close> stands for it.
\<close>

record MinMakespan =
  machines :: "nat list"

definition new_MinMakespan :: MinMakespan where
  "new_MinMakespan = \<lparr>machines = []\<rparr>"

definition add_machine :: "MinMakespan \<Rightarrow> MinMakespan" where
  "add_machine s = s\<lparr>machines := machines s @ [0]\<rparr>"

fun least :: "nat \<Rightarrow> nat list \<Rightarrow> nat" where
  "least m [] = m"
| "least m (x # xs) = least (min m x) xs"

definition first_least :: "nat list \<Rightarrow> nat" where
  "first_least xs = length (takeWhile (\<lambda>y. y \<noteq> least (hd xs) (tl xs)) xs)"

definition schedule_job :: "MinMakespan \<Rightarrow> TaskUnit \<Rightarrow> error + MinMakespan \<times> nat" where
  "schedule_job s tu =
     (if machines s = [] then Inl ValueError
      else (let i = first_least (machines s)
            in Inr (s\<lparr>machines := (machines s)[i := machines s ! i + 1]\<rparr>, i)))"

text \<open>
  Modelled from the spec: the function \<^verbatim>\<open>compute_taskunit_id\<close> of the module
  \<^verbatim>\<open>taskunit\<close>, the scheme of \<open>compute_job_id\<close> over two inputs, the data and the source
  of the processor.
\<close>

definition compute_taskunit_id :: "pyval \<Rightarrow> pyval \<Rightarrow> error + pystr" where
  "compute_taskunit_id data processor_code =
     (case as_bytes data of Inl e \<Rightarrow> Inl e | Inr data_bytes \<Rightarrow>
       (case as_bytes processor_code of Inl e \<Rightarrow> Inl e | Inr processor_code_bytes \<Rightarrow>
          Inr (md5_hexdigest (data_bytes @ processor_code_bytes))))"

section \<open>\<^verbatim>\<open>commands/create_job.py\<close>\<close>

text \<open>
  The module that \<^verbatim>\<open>importlib\<close> loads from the job file: each of its five names is
  defined or not, and reading a name that is not defined raises \<^verbatim>\<open>AttributeError\<close>.
\<close>

record jobcode =
  mod_processor :: "pyfunction option"
  mod_input_file :: "pyval option"
  mod_input_data :: "pyval option"
  mod_split :: "(pyval \<Rightarrow> pyfunction option \<Rightarrow> error + TaskUnit list) option"
  mod_combine :: "(files \<Rightarrow> files \<times> error option) option"

text \<open>
  The two \<^verbatim>\<open>try\<close> blocks: the object is built and the function of the job file is
  assigned to it; when the job file has no such function the bare \<^verbatim>\<open>except\<close> catches the
  \<^verbatim>\<open>AttributeError\<close> and leaves \<^verbatim>\<open>None\<close>.
\<close>

definition jobfile_combiner :: "jobcode \<Rightarrow> Combiner option" where
  "jobfile_combiner jc =
     (case mod_combine jc of
        Some f \<Rightarrow> Some (new_Combiner\<lparr>combine_attr := Some f\<rparr>)
      | None \<Rightarrow> None)"

definition jobfile_splitter :: "jobcode \<Rightarrow> Splitter option" where
  "jobfile_splitter jc =
     (case mod_split jc of
        Some f \<Rightarrow> Some (new_Splitter\<lparr>split_attr := Some f\<rparr>)
      | None \<Rightarrow> None)"

text \<open>
  \<open>enqueue_job\<close> up to \<^verbatim>\<open>m.send_job\<close>; the loop after it only waits for the delivery
  thread to empty the queue. The arguments of the call of \<^verbatim>\<open>Job\<close> are evaluated from
  left to right before the call. The result is the messenger when the function ends,
  and the exception that ended it, if any.
\<close>

definition enqueue_job :: "string \<Rightarrow> Job_class \<Rightarrow> jobcode \<Rightarrow> Job Messenger \<times> error option" where
  "enqueue_job my_hostname cls jc =
     (let m = register_destination (new_Messenger 33311) my_hostname (''0.0.0.0'', 33310);
          combiner = jobfile_combiner jc;
          splitter = jobfile_splitter jc
      in case mod_processor jc of
           None \<Rightarrow> (m, Some AttributeError)
         | Some processor \<Rightarrow>
            (case mod_input_file jc of
               None \<Rightarrow> (m, Some AttributeError)
             | Some input_file \<Rightarrow>
                (case Job_call cls [''processor'', ''input_file'', ''splitter'', ''combiner'']
                        (Job_defaults\<lparr>arg_processor := Some processor,
                                      arg_splitter := splitter,
                                      arg_combiner := combiner\<rparr>) of
                   Inl e \<Rightarrow> (m, Some e)
                 | Inr (cls', job) \<Rightarrow>
                    (let job' = (case mod_input_data jc of
                                   Some d \<Rightarrow> job\<lparr>input_data := d\<rparr>
                                 | None \<Rightarrow> job)
                     in (send_job m job' my_hostname, None)))))"

section \<open>\<^verbatim>\<open>master.py\<close>\<close>

text \<open>
  Modelled from the spec: the class \<^verbatim>\<open>Message\<close> of the module \<^verbatim>\<open>message\<close>, an envelope
  with a type and a payload of bytes. The type is one of the three constants of the
  class or something else. The loop only decodes the payload; the model keeps what the
  two decodings return, \<open>None\<close> where the decoding raises (\<open>ValueError\<close> stands for what
  it raises): \<^verbatim>\<open>int(msg.msg_payload.decode('utf-8'))\<close>, and
  \<^verbatim>\<open>job.Job.deserialize(msg.msg_payload.decode('utf-8'))\<close>, a function of the base class
  \<^verbatim>\<open>Serializable\<close>, which gives a job and leaves the class \<^verbatim>\<open>Job\<close> in some state.
\<close>

datatype msg_type = MSG_STATUS | MSG_JOB | MSG_TASKUNIT_RESULT | MSG_OTHER nat

record Message =
  msg_type :: msg_type
  payload_int :: "int option"
  payload_job :: "(Job_class \<times> Job) option"

text \<open>
  What \<^verbatim>\<open>self.messenger.receive\<close> hands to one round of the loop: the address and the
  message, if any. \<open>now\<close> is the text that \<^verbatim>\<open>time.strftime\<close> would return in this round.
\<close>

record received =
  src_address :: address
  msg :: "Message option"
  now :: pystr

text \<open>
  The master, with the attributes that \<^verbatim>\<open>Master.__init__\<close> assigns; its messenger listens
  on the port 33310 that \<^verbatim>\<open>create_job.py\<close> addresses. \<open>disk\<close> is not an attribute of the
  object: it is the files of the working directory of the process, which \<open>combine\<close>
  writes.
\<close>

record Master =
  pending_jobs :: "Job list"
  completed_jobs :: "Job list"
  slave_nodes :: "RemoteNode list"
  scheduler :: MinMakespan
  messenger :: "Job Messenger"
  jobs :: "pyval \<rightharpoonup> Job"
  disk :: files

definition new_Master :: Master where
  "new_Master =
     \<lparr>pending_jobs = [], completed_jobs = [], slave_nodes = [],
      scheduler = new_MinMakespan, messenger = new_Messenger 33310,
      jobs = Map.empty, disk = Map.empty\<rparr>"

text \<open>
  What the module \<^verbatim>\<open>master\<close> reads from outside the function: the constant
  \<^verbatim>\<open>node.Node.STATE_UP\<close>, and the names bound in the module. \<^verbatim>\<open>master.py\<close> itself binds
  its imports and the class \<^verbatim>\<open>Master\<close>, nothing else: as the module is written,
  \<open>module_names\<close> is empty.
\<close>

record module_env =
  STATE_UP :: int
  module_names :: "string \<rightharpoonup> TaskUnit"

definition master_module :: "int \<Rightarrow> module_env" where
  "master_module up = \<lparr>STATE_UP = up, module_names = Map.empty\<rparr>"

text \<open>The branch of \<^verbatim>\<open>MSG_STATUS\<close>.\<close>

definition on_status :: "module_env \<Rightarrow> Master \<Rightarrow> address \<Rightarrow> Message \<Rightarrow> Master \<times> error option" where
  "on_status env self addr m =
     (case payload_int m of
        None \<Rightarrow> (self, Some ValueError)
      | Some status \<Rightarrow>
          if status = STATE_UP env then
            (self\<lparr>slave_nodes := slave_nodes self @ [new_RemoteNode PyNone addr],
                  scheduler := add_machine (scheduler self),
                  messenger := register_destination (messenger self) ''slave1'' addr\<rparr>, None)
          else (self, None))"

text \<open>
  The branch of \<^verbatim>\<open>MSG_JOB\<close>. The identifier that the loop gives a unit:
  \<^verbatim>\<open>inspect.getsource\<close> raises \<^verbatim>\<open>TypeError\<close> when the processor is \<^verbatim>\<open>None\<close>.
\<close>

definition taskunit_id_of :: "TaskUnit \<Rightarrow> error + pystr" where
  "taskunit_id_of tu =
     (case tu_processor tu of
        None \<Rightarrow> Inl TypeError
      | Some f \<Rightarrow> compute_taskunit_id (tu_data tu) (PyStr (getsource f)))"

definition taskunit_attrs :: "string list" where
  "taskunit_attrs = [''id'', ''job_id'', ''data'', ''processor._code'', ''retries'']"

text \<open>
  One round of the \<^verbatim>\<open>for\<close> loop over the units of the split. The job \<open>j\<close> is the object
  that \<^verbatim>\<open>self.jobs\<close> already holds; it is written back to the table after the loop.
\<close>

definition dispatch_unit :: "Master \<Rightarrow> Job \<Rightarrow> TaskUnit \<Rightarrow> (Master \<times> Job) \<times> error option" where
  "dispatch_unit self j tu =
     (case taskunit_id_of tu of
        Inl e \<Rightarrow> ((self, j), Some e)
      | Inr taskunit_id \<Rightarrow>
         (let tu' = tu\<lparr>tu_id := PyStr taskunit_id, tu_job_id := job_id j\<rparr>;
              j' = j\<lparr>taskunits := dict_set (taskunits j) (tu_id tu') tu'\<rparr>
          in case schedule_job (scheduler self) tu' of
               Inl e \<Rightarrow> ((self, j'), Some e)
             | Inr (sched', next_slave) \<Rightarrow>
                (let self' = self\<lparr>scheduler := sched'\<rparr> in
                 if next_slave < length (slave_nodes self') then
                   (let slave_address = node_address (slave_nodes self' ! next_slave)
                    in ((self'\<lparr>messenger :=
                                  send_taskunit (messenger self') tu' slave_address taskunit_attrs\<rparr>,
                         j'), None))
                 else ((self', j'), Some IndexError))))"

fun dispatch :: "Master \<Rightarrow> Job \<Rightarrow> TaskUnit list \<Rightarrow> (Master \<times> Job) \<times> error option" where
  "dispatch self j [] = ((self, j), None)"
| "dispatch self j (tu # tus) =
     (case dispatch_unit self j tu of
        ((self', j'), None) \<Rightarrow> dispatch self' j' tus
      | ((self', j'), Some e) \<Rightarrow> ((self', j'), Some e))"

text \<open>
  The table \<^verbatim>\<open>self.jobs\<close> holds the job objects themselves: what a branch assigns to a job
  that it took from the table, or put there, is seen under the key of that entry.
\<close>

definition store_job :: "Master \<Rightarrow> pyval \<Rightarrow> Job \<Rightarrow> Master" where
  "store_job self key j = self\<lparr>jobs := (jobs self)(key \<mapsto> j)\<rparr>"

definition on_job :: "Master \<Rightarrow> Message \<Rightarrow> Master \<times> error option" where
  "on_job self m =
     (case payload_job m of
        None \<Rightarrow> (self, Some ValueError)
      | Some (cls, j) \<Rightarrow>
         (let self1 = store_job self (job_id j) j in
          case call_split (splitter j) (input_data j) (get_processor cls j) of
            Inl e \<Rightarrow> (self1, Some e)
          | Inr units \<Rightarrow>
             (case dispatch self1 j units of
                ((self2, j2), Some e) \<Rightarrow> (store_job self2 (job_id j) j2, Some e)
              | ((self2, j2), None) \<Rightarrow>
                  (store_job self2 (job_id j)
                     (j2\<lparr>pending_taskunits := Some (int (length (taskunits j2)))\<rparr>), None))))"

text \<open>
  The branch of \<^verbatim>\<open>MSG_TASKUNIT_RESULT\<close>. Its first statement reads the name
  \<^verbatim>\<open>deserialized_msg\<close>, which the function never assigns: Python looks it up in the
  module and raises \<^verbatim>\<open>NameError\<close> when it is not bound there. The message itself is not
  read in this branch.
\<close>

definition on_taskunit_result :: "module_env \<Rightarrow> pystr \<Rightarrow> Master \<Rightarrow> Master \<times> error option" where
  "on_taskunit_result env stamp self =
     (case module_names env ''deserialized_msg'' of
        None \<Rightarrow> (self, Some NameError)
      | Some tu \<Rightarrow>
         (case jobs self (tu_job_id tu) of
            None \<Rightarrow> (self, Some KeyError)
          | Some j \<Rightarrow>
             (case dict_get (taskunits j) (tu_id tu) of
                None \<Rightarrow> (self, Some KeyError)
              | Some u \<Rightarrow>
                 (let u' = u\<lparr>tu_result := tu_result tu, tu_state := tu_state tu\<rparr>;
                      j1 = j\<lparr>taskunits := dict_set (taskunits j) (tu_id tu) u'\<rparr>
                  in case pending_taskunits j1 of
                       None \<Rightarrow> (store_job self (tu_job_id tu) j1, Some AttributeError)
                     | Some n \<Rightarrow>
                        (let j2 = j1\<lparr>pending_taskunits := Some (n - 1)\<rparr> in
                         if n - 1 = 0 then
                           (let c = add_taskunits (combiner j2) (dict_values (taskunits j2));
                                j3 = j2\<lparr>combiner := c\<rparr>
                            in case call_combine stamp (disk self) c of
                                 (fs, e) \<Rightarrow> ((store_job self (tu_job_id tu) j3)\<lparr>disk := fs\<rparr>, e))
                         else (store_job self (tu_job_id tu) j2, None))))))"

text \<open>
  One round of the loop of \<^verbatim>\<open>Master.worker\<close>, and the loop over the first rounds. The
  loop has no exit of its own: a round either goes on to the next one (no error) or
  raises, and nothing in \<^verbatim>\<open>worker\<close> catches an exception, so a raise ends the loop.
\<close>

definition worker_step :: "module_env \<Rightarrow> Master \<Rightarrow> received \<Rightarrow> Master \<times> error option" where
  "worker_step env self r =
     (case msg r of
        None \<Rightarrow> (self, None)
      | Some m \<Rightarrow>
         (case msg_type m of
            MSG_STATUS \<Rightarrow> on_status env self (src_address r) m
          | MSG_JOB \<Rightarrow> on_job self m
          | MSG_TASKUNIT_RESULT \<Rightarrow> on_taskunit_result env (now r) self
          | MSG_OTHER n \<Rightarrow> (self, None)))"

fun worker :: "module_env \<Rightarrow> Master \<Rightarrow> received list \<Rightarrow> Master \<times> error option" where
  "worker env self [] = (self, None)"
| "worker env self (r # rs) =
     (case worker_step env self r of
        (self', None) \<Rightarrow> worker env self' rs
      | (self', Some e) \<Rightarrow> (self', Some e))"

subsection \<open>Notions of the specification\<close>

text \<open>Every registered worker has its slot in the scheduler.\<close>

definition registry_inv :: "Master \<Rightarrow> bool" where
  "registry_inv self = (length (slave_nodes self) = length (machines (scheduler self)))"


subsection \<open>Example inputs\<close>

definition example_env :: module_env where
  "example_env = master_module 1"

definition example_processor :: pyfunction where
  "example_processor = Function (str ''def processor(x): return int(x)'')"

definition rcv :: "Message \<Rightarrow> received" where
  "rcv m = \<lparr>src_address = (''10.0.0.2'', 33311), msg = Some m, now = str ''2026-11-04_12:00:00''\<rparr>"

definition up_message :: Message where
  "up_message = \<lparr>msg_type = MSG_STATUS, payload_int = Some 1, payload_job = None\<rparr>"

definition example_job :: "pystr \<Rightarrow> Job_class \<times> Job" where
  "example_job text =
     Job_init \<lparr>class_processor = None\<rparr>
       (Job_defaults\<lparr>arg_id := PyStr (str ''job1''), arg_input_data := PyStr text,
                     arg_processor := Some example_processor\<rparr>)"

definition job_message :: "pystr \<Rightarrow> Message" where
  "job_message text =
     \<lparr>msg_type = MSG_JOB, payload_int = None, payload_job = Some (example_job text)\<rparr>"

definition result_message :: Message where
  "result_message = \<lparr>msg_type = MSG_TASKUNIT_RESULT, payload_int = None, payload_job = None\<rparr>"

text \<open>A master with one registered worker.\<close>

definition one_worker :: Master where
  "one_worker = fst (worker_step example_env new_Master (rcv up_message))"

text \<open>The master after the job with the single line \<^verbatim>\<open>1\<close>: one unit is pending.\<close>

definition busy_master :: Master where
  "busy_master = fst (worker_step example_env one_worker (rcv (job_message (str ''1''))))"

text \<open>The result 5 for that unit, as a worker would send it back.\<close>

definition example_result :: TaskUnit where
  "example_result =
     (new_TaskUnit (PyStr [49]) (Some example_processor))
       \<lparr>tu_id := PyStr (str ''ab9bd96bd63c2a7456298d557eb508a5''),
        tu_job_id := PyStr (str ''job1''), tu_result := PyInt 5, tu_state := PyInt 2\<rparr>"

text \<open>A job file with input data and nothing else, and one with a processor as well.\<close>

definition jobfile_data_only :: jobcode where
  "jobfile_data_only =
     \<lparr>mod_processor = None, mod_input_file = None, mod_input_data = Some (PyStr (str ''1'')),
      mod_split = None, mod_combine = None\<rparr>"

definition jobfile_no_input_file :: jobcode where
  "jobfile_no_input_file = jobfile_data_only\<lparr>mod_processor := Some example_processor\<rparr>"

definition jobfile_complete :: jobcode where
  "jobfile_complete =
     jobfile_no_input_file\<lparr>mod_input_file := Some (PyStr (str ''input.txt''))\<rparr>"

section \<open>Properties of \<^verbatim>\<open>job.py\<close>\<close>

subsection \<open>Splitting into lines\<close>

lemma length_split_from: "length (split_from cur sep s) = count_list s sep + 1"
  by (induction s arbitrary: cur) auto

lemma join_split_from: "str_join sep (split_from cur sep s) = cur @ s"
proof (induction s arbitrary: cur)
  case Nil
  then show ?case by simp
next
  case (Cons c cs)
  show ?case
  proof (cases "c = sep")
    case True
    have "split_from [] sep cs \<noteq> []"
      using length_split_from [of "[]" sep cs] by auto
    then obtain l ls where "split_from [] sep cs = l # ls"
      by (cases "split_from [] sep cs") auto
    with Cons [of "[]"] True show ?thesis by simp
  next
    case False
    with Cons [of "cur @ [c]"] show ?thesis by simp
  qed
qed

lemma sep_free_split_from:
  "sep \<notin> set cur \<Longrightarrow> sep \<notin> set (concat (split_from cur sep s))"
proof (induction s arbitrary: cur)
  case Nil
  then show ?case by simp
next
  case (Cons c cs)
  show ?case
  proof (cases "c = sep")
    case True
    have "sep \<notin> set (concat (split_from [] sep cs))"
      by (rule Cons.IH) simp
    with True Cons.prems show ?thesis by simp
  next
    case False
    with Cons.prems have "sep \<notin> set (cur @ [c])" by simp
    then have "sep \<notin> set (concat (split_from (cur @ [c]) sep cs))"
      by (rule Cons.IH)
    with False show ?thesis by simp
  qed
qed

text \<open>
  Claim C3. For an input string \<open>s\<close> with \<open>N\<close> newlines (\<open>count_list s 10\<close>), the default
  splitter yields exactly \<open>N + 1\<close> task units. Their data are the lines of \<open>s\<close> in order,
  empty lines included: the lines hold no newline and joined by newlines they give \<open>s\<close>
  back, so no line is skipped or merged. Every unit carries the processor.
\<close>

theorem split_completeness:
  "\<exists>units. call_split new_Splitter (PyStr s) p = Inr units
     \<and> length units = count_list s 10 + 1
     \<and> map tu_data units = map PyStr (str_split s 10)
     \<and> map tu_processor units = replicate (count_list s 10 + 1) p
     \<and> str_join 10 (str_split s 10) = s
     \<and> 10 \<notin> set (concat (str_split s 10))"
proof -
  let ?lines = "str_split s 10"
  let ?units = "map (\<lambda>input_line. new_TaskUnit (PyStr input_line) p) ?lines"
  have len: "length ?lines = count_list s 10 + 1"
    by (simp add: str_split_def length_split_from)
  have "call_split new_Splitter (PyStr s) p = Inr ?units"
    by (simp add: call_split_def new_Splitter_def)
  moreover have "length ?units = count_list s 10 + 1"
    using len by simp
  moreover have "map tu_data ?units = map PyStr ?lines"
    by (simp add: new_TaskUnit_def)
  moreover have "map tu_processor ?units = replicate (count_list s 10 + 1) p"
    by (simp add: new_TaskUnit_def o_def map_replicate_const len)
  moreover have "str_join 10 ?lines = s"
    by (simp add: str_split_def join_split_from)
  moreover have "10 \<notin> set (concat ?lines)"
    unfolding str_split_def by (rule sep_free_split_from) simp
  ultimately show ?thesis by blast
qed

text \<open>The example of the specification: \<^verbatim>\<open>"a\nb\n"\<close> gives the data \<^verbatim>\<open>"a"\<close>, \<^verbatim>\<open>"b"\<close>, \<^verbatim>\<open>""\<close>.\<close>

theorem split_completeness_witness:
  "\<exists>units. call_split new_Splitter (PyStr (str ''a\<newline>b\<newline>'')) None = Inr units
     \<and> length units = 3
     \<and> map tu_data units = [PyStr (str ''a''), PyStr (str ''b''), PyStr []]"
proof -
  have "count_list (str ''a\<newline>b\<newline>'') 10 + 1 = 3"
    by (simp add: str_def)
  moreover have "map PyStr (str_split (str ''a\<newline>b\<newline>'') 10) =
                 [PyStr (str ''a''), PyStr (str ''b''), PyStr []]"
    by (simp add: str_split_def str_def)
  ultimately show ?thesis
    using split_completeness [of "str ''a\<newline>b\<newline>''" None] by auto
qed

subsection \<open>The job identifier\<close>

lemma utf8_encode_scalar:
  "list_all scalar_value s \<Longrightarrow> utf8_encode s = Inr (concat (map utf8_bytes s))"
proof (induction s)
  case Nil
  then show ?case by simp
next
  case (Cons c cs)
  then have "scalar_value c" by simp
  then have "utf8_char c = Inr (utf8_bytes c)"
    by (auto simp: scalar_value_def utf8_char_def utf8_bytes_def)
  with Cons show ?case by simp
qed

lemma as_bytes_representation:
  "text_or_bytes v \<Longrightarrow> as_bytes v = Inr (byte_representation v)"
  by (cases v) (simp_all add: utf8_encode_scalar)

text \<open>The model of MD5 on the test suite of RFC 1321 and on a message of two blocks.\<close>

lemma md5_hexdigest_empty: "md5_hexdigest [] = str ''d41d8cd98f00b204e9800998ecf8427e''"
  by code_simp

lemma md5_hexdigest_abc: "md5_hexdigest (str ''abc'') = str ''900150983cd24fb0d6963f7d28e17f72''"
  by code_simp

lemma md5_hexdigest_two_blocks:
  "md5_hexdigest (replicate 56 97) = str ''3b0c8ac703f828b04c6c197006d17218''"
  by code_simp

lemma md5_hexdigest_example:
  "md5_hexdigest [195, 169, 98, 226, 130, 172] = str ''1f17319b13c31c33a233e1eb98eb10f0''"
  by code_simp

text \<open>
  Claim C8. For inputs that are texts or bytes, \<open>compute_job_id\<close> returns the hexadecimal
  MD5 digest of the concatenation, in the order \<open>input_data\<close>, \<open>processor_code\<close>,
  \<open>split_code\<close>, \<open>combine_code\<close>, of their byte representations: the UTF-8 encoding of a
  text, a bytes value unchanged. The identifier is a function of the four inputs alone,
  so equal inputs in equal order give the same identifier.
\<close>

theorem compute_job_id_spec:
  assumes "text_or_bytes a" and "text_or_bytes b" and "text_or_bytes c" and "text_or_bytes d"
  shows "compute_job_id a b c d = Inr (job_id_spec a b c d)"
  using assms by (simp add: compute_job_id_def job_id_spec_def as_bytes_representation)

theorem compute_job_id_spec_witness:
  "text_or_bytes (PyStr [233]) \<and> text_or_bytes (PyBytes [98]) \<and> text_or_bytes (PyStr []) \<and>
   text_or_bytes (PyStr [0x20AC]) \<and>
   compute_job_id (PyStr [233]) (PyBytes [98]) (PyStr []) (PyStr [0x20AC]) =
     Inr (str ''1f17319b13c31c33a233e1eb98eb10f0'')"
proof -
  have h: "text_or_bytes (PyStr [233])" "text_or_bytes (PyBytes [98])"
    "text_or_bytes (PyStr [])" "text_or_bytes (PyStr [0x20AC])"
    by (simp_all add: scalar_value_def)
  have "concat (map byte_representation [PyStr [233], PyBytes [98], PyStr [], PyStr [0x20AC]]) =
        [195, 169, 98, 226, 130, 172]"
    by (simp add: utf8_bytes_def utf8_char_def)
  then have "job_id_spec (PyStr [233]) (PyBytes [98]) (PyStr []) (PyStr [0x20AC]) =
             str ''1f17319b13c31c33a233e1eb98eb10f0''"
    unfolding job_id_spec_def by (simp only: md5_hexdigest_example)
  with h compute_job_id_spec [OF h] show ?thesis by (simp only: simp_thms)
qed

text \<open>
  Outside texts and bytes the function raises: \<^verbatim>\<open>None\<close>, the default \<^verbatim>\<open>input_data\<close> of
  a job, is refused by \<^verbatim>\<open>bytes\<close>, and so is a lone surrogate by the encoder.
\<close>

lemma compute_job_id_None: "compute_job_id PyNone b c d = Inl TypeError"
  by (simp add: compute_job_id_def)

lemma compute_job_id_surrogate: "compute_job_id (PyStr [0xD800]) b c d = Inl UnicodeEncodeError"
  by (simp add: compute_job_id_def utf8_char_def)

subsection \<open>The default combiner\<close>


lemma dec_value_dec_nat: "dec_value (dec_nat n) = n"
proof (induction n rule: dec_nat.induct)
  case (1 n)
  show ?case
  proof (cases "n < 10")
    case True
    then show ?thesis by (simp add: dec_value_def)
  next
    case False
    with 1 have "dec_value (dec_nat (n div 10)) = n div 10" by simp
    then have "dec_value (dec_nat (n div 10) @ [48 + n mod 10]) = 10 * (n div 10) + n mod 10"
      by (simp add: dec_value_def)
    with False show ?thesis by (subst dec_nat.simps) simp
  qed
qed



text \<open>A result that is not a number makes \<open>sum\<close> raise, and nothing is written.\<close>

lemma combine_None_result:
  "call_combine stamp fs (add_taskunits new_Combiner [new_TaskUnit d p]) = (fs, Some TypeError)"
  by (simp add: call_combine_def Combiner_combine_def py_sum_def add_taskunits_def
      new_Combiner_def new_TaskUnit_def)

subsection \<open>The processor of a job\<close>

text \<open>
  Claim C9. The constructor stores the processor in the class. After two constructions
  in sequence, with processors \<open>arg_processor a1\<close> and \<open>arg_processor a2\<close>, both jobs
  observe the second processor; when the two processors differ, the processor that the
  first job observes has changed with the second construction.
\<close>

theorem Job_processor_shared:
  assumes "Job_call cls0 kw1 a1 = Inr (cls1, j1)" and "Job_call cls1 kw2 a2 = Inr (cls2, j2)"
  shows "get_processor cls1 j1 = arg_processor a1 \<and>
         get_processor cls2 j1 = arg_processor a2 \<and>
         get_processor cls2 j2 = arg_processor a2 \<and>
         (arg_processor a1 \<noteq> arg_processor a2 \<longrightarrow> get_processor cls2 j1 \<noteq> get_processor cls1 j1)"
  using assms
  by (auto simp: Job_call_def Job_init_def get_processor_def split: if_splits)

theorem Job_processor_shared_witness:
  "\<exists>cls1 j1 cls2 j2.
     Job_call \<lparr>class_processor = None\<rparr> [''processor'']
       (Job_defaults\<lparr>arg_processor := Some (Function (str ''f''))\<rparr>) = Inr (cls1, j1)
     \<and> Job_call cls1 [''processor'']
       (Job_defaults\<lparr>arg_processor := Some (Function (str ''g''))\<rparr>) = Inr (cls2, j2)
     \<and> get_processor cls1 j1 = Some (Function (str ''f''))
     \<and> get_processor cls2 j1 = Some (Function (str ''g''))
     \<and> get_processor cls2 j2 = Some (Function (str ''g''))"
proof -
  let ?a1 = "Job_defaults\<lparr>arg_processor := Some (Function (str ''f''))\<rparr>"
  let ?a2 = "Job_defaults\<lparr>arg_processor := Some (Function (str ''g''))\<rparr>"
  obtain cls1 j1 where 1: "Job_call \<lparr>class_processor = None\<rparr> [''processor''] ?a1 = Inr (cls1, j1)"
    by (simp add: Job_call_def Job_parameters_def Job_init_def)
  obtain cls2 j2 where 2: "Job_call cls1 [''processor''] ?a2 = Inr (cls2, j2)"
    by (simp add: Job_call_def Job_parameters_def Job_init_def)
  from Job_processor_shared [OF 1 2] 1 2 show ?thesis
    by (simp add: Job_defaults_def)
qed

section \<open>Properties of \<^verbatim>\<open>commands/create_job.py\<close>\<close>

lemma Job_call_input_file:
  "Job_call cls [''processor'', ''input_file'', ''splitter'', ''combiner''] a = Inl TypeError"
  by (simp add: Job_call_def Job_parameters_def)

text \<open>
  Claim C10, as the code has it. Every call of \<open>enqueue_job\<close> ends with an exception
  before \<open>send_job\<close>, and the queue of the messenger is empty. The exception is the
  \<^verbatim>\<open>TypeError\<close> of the keyword \<^verbatim>\<open>input_file\<close> when the job file defines both
  \<^verbatim>\<open>processor\<close> and \<^verbatim>\<open>input_file\<close>; when it lacks one of them, reading the missing name
  raises \<^verbatim>\<open>AttributeError\<close> before \<^verbatim>\<open>Job\<close> is called.
\<close>

theorem enqueue_job_raises:
  "enqueue_job h cls jc =
     (register_destination (new_Messenger 33311) h (''0.0.0.0'', 33310),
      Some (if mod_processor jc = None \<or> mod_input_file jc = None then AttributeError
            else TypeError))
   \<and> outbound_queue (fst (enqueue_job h cls jc)) = []"
  by (auto simp: enqueue_job_def Job_call_input_file Let_def register_destination_def
      new_Messenger_def split: option.splits)

theorem enqueue_job_raises_witness:
  "snd (enqueue_job ''host'' \<lparr>class_processor = None\<rparr> jobfile_complete) = Some TypeError
   \<and> outbound_queue (fst (enqueue_job ''host'' \<lparr>class_processor = None\<rparr> jobfile_complete)) = []"
  using enqueue_job_raises [of "''host''" "\<lparr>class_processor = None\<rparr>" jobfile_complete]
  by (simp add: register_destination_def new_Messenger_def jobfile_complete_def
      jobfile_no_input_file_def jobfile_data_only_def)

text \<open>
  The claim as stated, a \<^verbatim>\<open>TypeError\<close> for every job file, fails on a job file that
  defines a processor and input data but no \<^verbatim>\<open>input_file\<close>.
\<close>

theorem enqueue_job_TypeError_counterexample:
  "snd (enqueue_job ''host'' \<lparr>class_processor = None\<rparr> jobfile_no_input_file) =
     Some AttributeError
   \<and> snd (enqueue_job ''host'' \<lparr>class_processor = None\<rparr> jobfile_no_input_file) \<noteq>
     Some TypeError"
  by (simp add: enqueue_job_def jobfile_no_input_file_def jobfile_data_only_def)

text \<open>
  Claim C7. A job file without a processor makes \<open>enqueue_job\<close> raise, and nothing has
  been queued for sending. A missing \<^verbatim>\<open>split\<close> or \<^verbatim>\<open>combine\<close> raises nothing: the
  \<^verbatim>\<open>try\<close> blocks leave \<^verbatim>\<open>None\<close>, so that taking \<^verbatim>\<open>split\<close> and \<^verbatim>\<open>combine\<close> out of a job
  file changes nothing in the outcome of \<open>enqueue_job\<close>, and a \<^verbatim>\<open>Job\<close> constructed with
  the parameters of its signature and no splitter or combiner gets the default ones.
\<close>

theorem missing_processor_fatal:
  "(mod_processor jc = None \<longrightarrow>
      snd (enqueue_job h cls jc) = Some AttributeError \<and>
      outbound_queue (fst (enqueue_job h cls jc)) = [])
   \<and> (mod_split jc = None \<longrightarrow> jobfile_splitter jc = None)
   \<and> (mod_combine jc = None \<longrightarrow> jobfile_combiner jc = None)
   \<and> enqueue_job h cls (jc\<lparr>mod_split := None, mod_combine := None\<rparr>) = enqueue_job h cls jc
   \<and> (set kws \<subseteq> set Job_parameters \<longrightarrow>
        (\<exists>cls' j. Job_call cls kws a = Inr (cls', j)
           \<and> (arg_splitter a = None \<longrightarrow> splitter j = new_Splitter)
           \<and> (arg_combiner a = None \<longrightarrow> combiner j = new_Combiner)))"
proof -
  have "enqueue_job h cls (jc\<lparr>mod_split := None, mod_combine := None\<rparr>) = enqueue_job h cls jc"
    by (simp add: enqueue_job_def Let_def Job_call_input_file split: option.splits)
  then show ?thesis
    by (auto simp: enqueue_job_def Let_def register_destination_def new_Messenger_def
        jobfile_splitter_def jobfile_combiner_def Job_call_def Job_init_def)
qed

theorem missing_processor_fatal_witness:
  "mod_processor jobfile_data_only = None
   \<and> snd (enqueue_job ''host'' \<lparr>class_processor = None\<rparr> jobfile_data_only) = Some AttributeError
   \<and> outbound_queue (fst (enqueue_job ''host'' \<lparr>class_processor = None\<rparr> jobfile_data_only)) = []
   \<and> jobfile_splitter jobfile_data_only = None
   \<and> jobfile_combiner jobfile_data_only = None
   \<and> (\<exists>cls' j. Job_call \<lparr>class_processor = None\<rparr> [''processor'', ''input_data'']
                   (Job_defaults\<lparr>arg_processor := Some example_processor,
                                 arg_input_data := PyStr (str ''1'')\<rparr>) = Inr (cls', j)
          \<and> splitter j = new_Splitter \<and> combiner j = new_Combiner)"
  using missing_processor_fatal [of jobfile_data_only "''host''" "\<lparr>class_processor = None\<rparr>"
      "[''processor'', ''input_data'']"
      "Job_defaults\<lparr>arg_processor := Some example_processor, arg_input_data := PyStr (str ''1'')\<rparr>"]
  by (simp add: jobfile_data_only_def Job_parameters_def Job_defaults_def)

section \<open>Properties of \<^verbatim>\<open>master.py\<close>\<close>

subsection \<open>The scheduler\<close>

text \<open>
  The model of \<open>schedule_job\<close> does what the specification asks of it: with at least
  one slot it returns the first slot of least load and adds one to it.
\<close>

lemma least_in: "least m xs \<in> insert m (set xs)"
  by (induction xs arbitrary: m) (auto simp: min_def)

lemma least_le: "least m xs \<le> m \<and> (\<forall>x\<in>set xs. least m xs \<le> x)"
proof (induction xs arbitrary: m)
  case Nil
  then show ?case by simp
next
  case (Cons a xs)
  have 1: "least (min m a) xs \<le> min m a" and 2: "\<forall>x\<in>set xs. least (min m a) xs \<le> x"
    using Cons [of "min m a"] by auto
  from 1 have "least (min m a) xs \<le> m" "least (min m a) xs \<le> a" by auto
  with 2 show ?case by auto
qed

lemma first_least_less:
  assumes "xs \<noteq> []"
  shows "first_least xs < length xs"
proof -
  let ?P = "\<lambda>y. y \<noteq> least (hd xs) (tl xs)"
  have "least (hd xs) (tl xs) \<in> set xs"
    using least_in [of "hd xs" "tl xs"] assms by (cases xs) auto
  then have neq: "takeWhile ?P xs \<noteq> xs"
    by (auto simp: takeWhile_eq_all_conv)
  have "length (takeWhile ?P xs) \<noteq> length xs"
  proof
    assume "length (takeWhile ?P xs) = length xs"
    then have "takeWhile ?P xs = xs"
      using takeWhile_eq_take [of ?P xs] by simp
    with neq show False by simp
  qed
  moreover have "length (takeWhile ?P xs) \<le> length xs"
    by (rule length_takeWhile_le)
  ultimately show ?thesis
    by (simp add: first_least_def)
qed

lemma first_least_minimal:
  assumes "xs \<noteq> []" and "k < length xs"
  shows "xs ! first_least xs \<le> xs ! k"
proof -
  let ?m = "least (hd xs) (tl xs)"
  have lt: "length (takeWhile (\<lambda>y. y \<noteq> ?m) xs) < length xs"
    using first_least_less [OF assms(1)] by (simp add: first_least_def)
  have at: "xs ! first_least xs = ?m"
    using nth_length_takeWhile [OF lt] by (simp add: first_least_def)
  have "xs ! k \<in> set xs"
    using assms(2) by simp
  then have "?m \<le> xs ! k"
    using least_le [of "hd xs" "tl xs"] assms(1) by (cases xs) auto
  with at show ?thesis by simp
qed

lemma first_least_first:
  assumes "xs \<noteq> []" and "k < first_least xs"
  shows "xs ! k \<noteq> xs ! first_least xs"
proof -
  let ?m = "least (hd xs) (tl xs)"
  let ?P = "\<lambda>y. y \<noteq> ?m"
  have lt: "length (takeWhile ?P xs) < length xs"
    using first_least_less [OF assms(1)] by (simp add: first_least_def)
  have at: "xs ! first_least xs = ?m"
    using nth_length_takeWhile [OF lt] by (simp add: first_least_def)
  have k: "k < length (takeWhile ?P xs)"
    using assms(2) by (simp add: first_least_def)
  then have "takeWhile ?P xs ! k \<in> set (takeWhile ?P xs)"
    by (rule nth_mem)
  then have "?P (takeWhile ?P xs ! k)"
    by (rule set_takeWhileD [THEN conjunct2])
  moreover have "takeWhile ?P xs ! k = xs ! k"
    using k by (rule takeWhile_nth)
  ultimately show ?thesis using at by simp
qed

lemma schedule_job_least_loaded:
  assumes "machines s \<noteq> []"
  shows "\<exists>s' i. schedule_job s tu = Inr (s', i) \<and> i < length (machines s)
           \<and> machines s' = (machines s)[i := machines s ! i + 1]
           \<and> (\<forall>k < length (machines s). machines s ! i \<le> machines s ! k)
           \<and> (\<forall>k < i. machines s ! k \<noteq> machines s ! i)"
proof -
  let ?i = "first_least (machines s)"
  have lt: "?i < length (machines s)"
    using assms by (rule first_least_less)
  have "\<forall>k < length (machines s). machines s ! ?i \<le> machines s ! k"
    using first_least_minimal [OF assms] by blast
  moreover have "\<forall>k < ?i. machines s ! k \<noteq> machines s ! ?i"
    using first_least_first [OF assms] by blast
  ultimately show ?thesis
    using assms lt by (simp add: schedule_job_def Let_def)
qed

subsection \<open>Registration\<close>

lemma schedule_job_length:
  "schedule_job s tu = Inr (s', i) \<Longrightarrow> length (machines s') = length (machines s)"
  by (auto simp: schedule_job_def Let_def split: if_splits)

lemma dispatch_unit_registry:
  "dispatch_unit self j tu = ((self', j'), e) \<Longrightarrow>
   slave_nodes self' = slave_nodes self \<and>
   length (machines (scheduler self')) = length (machines (scheduler self)) \<and>
   jobs self' = jobs self \<and> disk self' = disk self"
  unfolding dispatch_unit_def
  by (auto simp: Let_def split: sum.splits if_splits) (auto dest: schedule_job_length)

lemma dispatch_registry:
  "dispatch self j tus = ((self', j'), e) \<Longrightarrow>
   slave_nodes self' = slave_nodes self \<and>
   length (machines (scheduler self')) = length (machines (scheduler self)) \<and>
   jobs self' = jobs self \<and> disk self' = disk self"
proof (induction tus arbitrary: self j)
  case Nil
  then show ?case by simp
next
  case (Cons tu tus)
  obtain self1 j1 e1 where u: "dispatch_unit self j tu = ((self1, j1), e1)"
    by (metis prod.exhaust)
  note r = dispatch_unit_registry [OF u]
  show ?case
  proof (cases e1)
    case None
    with Cons.prems u have "dispatch self1 j1 tus = ((self', j'), e)" by simp
    from Cons.IH [OF this] r show ?thesis by simp
  next
    case (Some x)
    with Cons.prems u have "self' = self1" by simp
    with r show ?thesis by simp
  qed
qed

text \<open>With a registered worker the loop over the units raises only where an identifier does.\<close>

lemma dispatch_unit_succeeds:
  assumes "registry_inv self" and "slave_nodes self \<noteq> []" and "taskunit_id_of tu = Inr tid"
  shows "snd (dispatch_unit self j tu) = None"
proof -
  have ne: "machines (scheduler self) \<noteq> []"
    using assms(1,2) by (auto simp: registry_inv_def)
  from schedule_job_least_loaded [OF ne] obtain s' i where
    "schedule_job (scheduler self) (tu\<lparr>tu_id := PyStr tid, tu_job_id := job_id j\<rparr>) = Inr (s', i)"
    "i < length (machines (scheduler self))"
    by blast
  with assms(1,3) show ?thesis
    by (simp add: dispatch_unit_def Let_def registry_inv_def)
qed

lemma on_status_inv:
  "registry_inv self \<Longrightarrow> registry_inv (fst (on_status env self addr m))"
  by (auto simp: registry_inv_def on_status_def add_machine_def split: option.splits)

lemma on_job_inv:
  assumes inv: "registry_inv self"
  shows "registry_inv (fst (on_job self m))"
proof (cases "payload_job m")
  case None
  with inv show ?thesis by (simp add: on_job_def)
next
  case (Some p)
  obtain cls j where p: "p = (cls, j)" by (cases p)
  show ?thesis
  proof (cases "call_split (splitter j) (input_data j) (get_processor cls j)")
    case (Inl e)
    with Some p inv show ?thesis
      by (simp add: on_job_def store_job_def registry_inv_def)
  next
    case (Inr units)
    obtain self2 j2 e2 where d: "dispatch (store_job self (job_id j) j) j units = ((self2, j2), e2)"
      by (metis prod.exhaust)
    from dispatch_registry [OF d] inv have "registry_inv self2"
      by (simp add: registry_inv_def store_job_def)
    with Some p Inr d show ?thesis
      by (cases e2) (simp_all add: on_job_def store_job_def registry_inv_def)
  qed
qed

lemma on_taskunit_result_inv:
  "registry_inv self \<Longrightarrow> registry_inv (fst (on_taskunit_result env stamp self))"
  by (auto simp: registry_inv_def on_taskunit_result_def store_job_def Let_def
      split: option.splits prod.splits)

lemma worker_step_inv:
  "registry_inv self \<Longrightarrow> registry_inv (fst (worker_step env self r))"
  by (auto simp: worker_step_def on_status_inv on_job_inv on_taskunit_result_inv
      split: option.splits msg_type.splits)

lemma worker_inv:
  "registry_inv self \<Longrightarrow> registry_inv (fst (worker env self rs))"
proof (induction rs arbitrary: self)
  case Nil
  then show ?case by simp
next
  case (Cons r rs)
  obtain self1 e1 where s: "worker_step env self r = (self1, e1)"
    by (cases "worker_step env self r")
  from worker_step_inv [OF Cons.prems, of env r] s have "registry_inv self1" by simp
  with Cons.IH [of self1] s show ?case by (cases e1) simp_all
qed

lemma one_worker_eq:
  "one_worker = new_Master
     \<lparr>slave_nodes := [new_RemoteNode PyNone (''10.0.0.2'', 33311)],
      scheduler := \<lparr>machines = [0]\<rparr>,
      messenger := register_destination (new_Messenger 33310) ''slave1'' (''10.0.0.2'', 33311)\<rparr>"
  by (simp add: one_worker_def worker_step_def rcv_def up_message_def on_status_def
      example_env_def master_module_def new_Master_def add_machine_def new_MinMakespan_def)

text \<open>
  Claim C5. A round that receives a status message with the code \<open>STATE_UP\<close> raises
  nothing, appends one node with the address of the sender to \<open>slave_nodes\<close> and one
  slot to the scheduler, whatever the master already holds, the same address included.
  Whatever the loop receives from its start, the number of nodes is the number of slots.
\<close>

theorem status_up_registers:
  "(msg r = Some m \<and> msg_type m = MSG_STATUS \<and> payload_int m = Some (STATE_UP env) \<longrightarrow>
      snd (worker_step env self r) = None \<and>
      slave_nodes (fst (worker_step env self r)) =
        slave_nodes self @ [new_RemoteNode PyNone (src_address r)] \<and>
      machines (scheduler (fst (worker_step env self r))) = machines (scheduler self) @ [0])
   \<and> registry_inv (fst (worker env new_Master rs))"
proof -
  have "registry_inv new_Master"
    by (simp add: registry_inv_def new_Master_def new_MinMakespan_def)
  then have "registry_inv (fst (worker env new_Master rs))"
    by (rule worker_inv)
  then show ?thesis
    by (auto simp: worker_step_def on_status_def add_machine_def)
qed

text \<open>Two registrations from one address: two nodes, two slots.\<close>

theorem status_up_registers_witness:
  "msg (rcv up_message) = Some up_message \<and> msg_type up_message = MSG_STATUS
   \<and> payload_int up_message = Some (STATE_UP example_env)
   \<and> snd (worker_step example_env one_worker (rcv up_message)) = None
   \<and> slave_nodes (fst (worker_step example_env one_worker (rcv up_message))) =
       [new_RemoteNode PyNone (''10.0.0.2'', 33311), new_RemoteNode PyNone (''10.0.0.2'', 33311)]
   \<and> machines (scheduler (fst (worker_step example_env one_worker (rcv up_message)))) = [0, 0]
   \<and> registry_inv (fst (worker example_env new_Master [rcv up_message, rcv up_message]))"
proof -
  have a: "msg (rcv up_message) = Some up_message \<and> msg_type up_message = MSG_STATUS
           \<and> payload_int up_message = Some (STATE_UP example_env)"
    by (simp add: rcv_def up_message_def example_env_def master_module_def)
  have b: "slave_nodes one_worker = [new_RemoteNode PyNone (''10.0.0.2'', 33311)]"
    "machines (scheduler one_worker) = [0]" "src_address (rcv up_message) = (''10.0.0.2'', 33311)"
    by (simp_all add: one_worker_eq rcv_def)
  from status_up_registers [of "rcv up_message" up_message example_env one_worker
      "[rcv up_message, rcv up_message]"] a b
  show ?thesis by simp
qed

subsection \<open>Jobs\<close>

lemma keys_dict_set: "fst ` set (dict_set d k v) = insert k (fst ` set d)"
  by (auto simp: dict_set_def split: if_splits) (force+)

lemma map_fst_replace:
  "map (fst \<circ> (\<lambda>(k', v'). if k' = k then (k', v) else (k', v'))) d = map fst d"
  by (induction d) auto

lemma distinct_dict_set: "distinct (map fst d) \<Longrightarrow> distinct (map fst (dict_set d k v))"
  by (auto simp: dict_set_def map_fst_replace)

lemma dispatch_unit_ok:
  assumes "dispatch_unit self j tu = ((self', j'), None)"
  shows "\<exists>tid. taskunit_id_of tu = Inr tid
           \<and> taskunits j' = dict_set (taskunits j) (PyStr tid) (tu\<lparr>tu_id := PyStr tid, tu_job_id := job_id j\<rparr>)
           \<and> job_id j' = job_id j
           \<and> length (outbound_queue (messenger self')) = Suc (length (outbound_queue (messenger self)))"
  using assms unfolding dispatch_unit_def
  by (auto simp: Let_def send_taskunit_def split: sum.splits if_splits)

lemma dispatch_ok:
  assumes "dispatch self j tus = ((self', j'), None)" and "distinct (map fst (taskunits j))"
  shows "\<exists>ids. map taskunit_id_of tus = map Inr ids
           \<and> set (map fst (taskunits j')) = set (map fst (taskunits j)) \<union> PyStr ` set ids
           \<and> distinct (map fst (taskunits j'))
           \<and> job_id j' = job_id j
           \<and> length (outbound_queue (messenger self')) =
               length (outbound_queue (messenger self)) + length tus"
  using assms
proof (induction tus arbitrary: self j)
  case Nil
  then show ?case by simp
next
  case (Cons tu tus)
  obtain self1 j1 e1 where u: "dispatch_unit self j tu = ((self1, j1), e1)"
    by (metis prod.exhaust)
  with Cons.prems(1) have e1: "e1 = None"
    by (cases e1) auto
  with u Cons.prems(1) have d: "dispatch self1 j1 tus = ((self', j'), None)"
    by simp
  from dispatch_unit_ok [OF u [unfolded e1]] obtain tid where
    tid: "taskunit_id_of tu = Inr tid"
    and tus1: "taskunits j1 = dict_set (taskunits j) (PyStr tid) (tu\<lparr>tu_id := PyStr tid, tu_job_id := job_id j\<rparr>)"
    and id1: "job_id j1 = job_id j"
    and q1: "length (outbound_queue (messenger self1)) = Suc (length (outbound_queue (messenger self)))"
    by blast
  have dist1: "distinct (map fst (taskunits j1))"
    using Cons.prems(2) by (simp add: tus1 distinct_dict_set)
  from Cons.IH [OF d dist1] obtain ids where
    ids: "map taskunit_id_of tus = map Inr ids"
    and keys: "set (map fst (taskunits j')) = set (map fst (taskunits j1)) \<union> PyStr ` set ids"
    and dist: "distinct (map fst (taskunits j'))"
    and id': "job_id j' = job_id j1"
    and q: "length (outbound_queue (messenger self')) = length (outbound_queue (messenger self1)) + length tus"
    by blast
  have "map taskunit_id_of (tu # tus) = map Inr (tid # ids)"
    using tid ids by simp
  moreover have "set (map fst (taskunits j')) = set (map fst (taskunits j)) \<union> PyStr ` set (tid # ids)"
    using keys by (simp add: tus1 keys_dict_set)
  moreover have "length (outbound_queue (messenger self')) =
                 length (outbound_queue (messenger self)) + length (tu # tus)"
    using q q1 by simp
  ultimately show ?case
    using dist id' id1 by metis
qed


lemma example_id_a:
  "taskunit_id_of (new_TaskUnit (PyStr [97]) (Some example_processor)) =
   Inr (md5_hexdigest (97 # getsource example_processor))"
  by (simp add: taskunit_id_of_def new_TaskUnit_def example_processor_def
      compute_taskunit_id_def str_def utf8_char_def)

lemmas job_round =
  worker_step_def rcv_def job_message_def on_job_def example_job_def Job_init_def
  Job_defaults_def call_split_def new_Splitter_def get_processor_def str_split_def str_def
  one_worker_eq new_Master_def store_job_def dispatch_unit_def Let_def
  schedule_job_def first_least_def dict_set_def send_taskunit_def register_destination_def
  new_Messenger_def new_RemoteNode_def

lemma example_id_1:
  "taskunit_id_of (new_TaskUnit (PyStr [49]) (Some example_processor)) =
   Inr (str ''ab9bd96bd63c2a7456298d557eb508a5'')"
proof -
  have "md5_hexdigest (49 # str ''def processor(x): return int(x)'') =
        str ''ab9bd96bd63c2a7456298d557eb508a5''"
    by code_simp
  then show ?thesis
    by (simp add: taskunit_id_of_def new_TaskUnit_def example_processor_def
        compute_taskunit_id_def str_def utf8_char_def)
qed

lemma example_id_2:
  "taskunit_id_of (new_TaskUnit (PyStr [50]) (Some example_processor)) =
   Inr (str ''2435ee6f78f0ba67dd2468c056a16c1f'')"
proof -
  have "md5_hexdigest (50 # str ''def processor(x): return int(x)'') =
        str ''2435ee6f78f0ba67dd2468c056a16c1f''"
    by code_simp
  then show ?thesis
    by (simp add: taskunit_id_of_def new_TaskUnit_def example_processor_def
        compute_taskunit_id_def str_def utf8_char_def)
qed

text \<open>
  Claim C4, as the code has it. After a job message whose units were all dispatched (the
  round raised nothing and the queue of the messenger grew by the \<open>K\<close> units of the
  split), \<open>pending_taskunits\<close> is the number of entries of the job's unit table. For a
  job that arrives with an empty table this is the number of distinct identifiers among
  the units; it is \<open>K\<close> when the identifiers of the units differ from each other.
\<close>

theorem pending_counts_distinct_ids:
  assumes "msg r = Some m" and "msg_type m = MSG_JOB" and "payload_job m = Some (cls, j)"
    and "taskunits j = []"
    and "call_split (splitter j) (input_data j) (get_processor cls j) = Inr units"
    and "snd (worker_step env self r) = None"
  shows "\<exists>j'. jobs (fst (worker_step env self r)) (job_id j) = Some j'
           \<and> pending_taskunits j' = Some (int (length (taskunits j')))
           \<and> length (taskunits j') = card (set (map taskunit_id_of units))
           \<and> (distinct (map taskunit_id_of units) \<longrightarrow>
                pending_taskunits j' = Some (int (length units)))
           \<and> length (outbound_queue (messenger (fst (worker_step env self r)))) =
               length (outbound_queue (messenger self)) + length units"
proof -
  obtain self2 j2 e2 where d: "dispatch (store_job self (job_id j) j) j units = ((self2, j2), e2)"
    by (metis prod.exhaust)
  have step: "worker_step env self r = on_job self m"
    using assms(1,2) by (simp add: worker_step_def)
  have e2: "e2 = None"
    using assms(3,5,6) d by (cases e2) (simp_all add: step on_job_def)
  let ?j' = "j2\<lparr>pending_taskunits := Some (int (length (taskunits j2)))\<rparr>"
  have res: "worker_step env self r = (store_job self2 (job_id j) ?j', None)"
    using assms(3,5) d e2 by (simp add: step on_job_def)
  from dispatch_ok [OF d [unfolded e2]] assms(4) obtain ids where
    ids: "map taskunit_id_of units = map Inr ids"
    and keys: "set (map fst (taskunits j2)) = PyStr ` set ids"
    and dist: "distinct (map fst (taskunits j2))"
    and jid: "job_id j2 = job_id j"
    and q: "length (outbound_queue (messenger self2)) =
            length (outbound_queue (messenger (store_job self (job_id j) j))) + length units"
    by auto
  have "length (taskunits j2) = card (set (map fst (taskunits j2)))"
    using distinct_card [OF dist] by simp
  also have "\<dots> = card (set ids)"
    unfolding keys by (rule card_image) (simp add: inj_on_def)
  also have "\<dots> = card (Inr ` set ids :: (error + pystr) set)"
    by (rule card_image [symmetric]) (simp add: inj_on_def)
  also have "\<dots> = card (set (map taskunit_id_of units))"
    by (simp add: ids)
  finally have len: "length (taskunits j2) = card (set (map taskunit_id_of units))" .
  have "jobs (store_job self2 (job_id j) ?j') (job_id j) = Some ?j'"
    by (simp add: store_job_def)
  moreover have "pending_taskunits ?j' = Some (int (length (taskunits ?j')))"
    by simp
  moreover have "length (taskunits ?j') = card (set (map taskunit_id_of units))"
    using len by simp
  moreover have "distinct (map taskunit_id_of units) \<longrightarrow>
                 pending_taskunits ?j' = Some (int (length units))"
    using len distinct_card [of "map taskunit_id_of units"] by simp
  moreover have "length (outbound_queue (messenger (store_job self2 (job_id j) ?j'))) =
                 length (outbound_queue (messenger self)) + length units"
    using q by (simp add: store_job_def)
  ultimately show ?thesis
    unfolding res by (intro exI [of _ ?j']) simp
qed

theorem pending_counts_distinct_ids_witness:
  "\<exists>j'. jobs (fst (worker_step example_env one_worker (rcv (job_message (str ''1\<newline>2'')))))
           (PyStr (str ''job1'')) = Some j'
      \<and> pending_taskunits j' = Some 2
      \<and> length (taskunits j') = 2"
proof -
  let ?r = "rcv (job_message (str ''1\<newline>2''))"
  let ?cls = "fst (example_job (str ''1\<newline>2''))"
  let ?j = "snd (example_job (str ''1\<newline>2''))"
  let ?units = "[new_TaskUnit (PyStr [49]) (Some example_processor),
                 new_TaskUnit (PyStr [50]) (Some example_processor)]"
  have 1: "msg ?r = Some (job_message (str ''1\<newline>2''))"
    by (simp add: rcv_def)
  have 2: "msg_type (job_message (str ''1\<newline>2'')) = MSG_JOB"
    by (simp add: job_message_def)
  have 3: "payload_job (job_message (str ''1\<newline>2'')) = Some (?cls, ?j)"
    by (simp add: job_message_def)
  have 4: "taskunits ?j = []"
    by (simp add: example_job_def Job_init_def)
  have 5: "call_split (splitter ?j) (input_data ?j) (get_processor ?cls ?j) = Inr ?units"
    by (simp add: example_job_def Job_init_def Job_defaults_def call_split_def new_Splitter_def
        get_processor_def str_split_def str_def)
  have 6: "snd (worker_step example_env one_worker ?r) = None"
    by (simp add: job_round example_id_1 example_id_2)
  have 7: "job_id ?j = PyStr (str ''job1'')"
    by (simp add: example_job_def Job_init_def Job_defaults_def)
  have 8: "distinct (map taskunit_id_of ?units)"
    by (simp add: example_id_1 example_id_2 str_def)
  from pending_counts_distinct_ids [OF 1 2 3 4 5 6] 7 8 show ?thesis
    by auto
qed

text \<open>
  The claim as stated fails when two lines are equal: the units of \<^verbatim>\<open>"a\na"\<close> get the
  same identifier, both are dispatched, and the table holds one entry.
\<close>

theorem pending_below_units_counterexample:
  "call_split (splitter (snd (example_job (str ''a\<newline>a''))))
       (input_data (snd (example_job (str ''a\<newline>a''))))
       (get_processor (fst (example_job (str ''a\<newline>a''))) (snd (example_job (str ''a\<newline>a'')))) =
     Inr [new_TaskUnit (PyStr (str ''a'')) (Some example_processor),
          new_TaskUnit (PyStr (str ''a'')) (Some example_processor)]
   \<and> snd (worker_step example_env one_worker (rcv (job_message (str ''a\<newline>a'')))) = None
   \<and> length (outbound_queue (messenger
         (fst (worker_step example_env one_worker (rcv (job_message (str ''a\<newline>a''))))))) = 2
   \<and> map_option pending_taskunits
        (jobs (fst (worker_step example_env one_worker (rcv (job_message (str ''a\<newline>a'')))))
           (PyStr (str ''job1''))) = Some (Some 1)"
  by (simp add: job_round example_id_a)



subsection \<open>Results\<close>

text \<open>
  Claim C1. The code does not do what the claim says: with the module as it is written,
  the round of a result message stops at its first statement with \<^verbatim>\<open>NameError\<close>. Here
  the master holds the job \<^verbatim>\<open>job1\<close> with one pending unit; after the round the master
  is unchanged.
\<close>

theorem result_round_NameError:
  "map_option pending_taskunits (jobs busy_master (PyStr (str ''job1''))) = Some (Some 1)
   \<and> worker_step example_env busy_master (rcv result_message) = (busy_master, Some NameError)"
proof -
  have "map_option pending_taskunits (jobs busy_master (PyStr (str ''job1''))) = Some (Some 1)"
    unfolding busy_master_def by (simp add: job_round example_id_1)
  moreover have "worker_step example_env busy_master (rcv result_message) =
                 (busy_master, Some NameError)"
    by (simp add: worker_step_def rcv_def result_message_def on_taskunit_result_def
        example_env_def master_module_def)
  ultimately show ?thesis by simp
qed

text \<open>
  Were the name bound to the result of the unit, the round would record the result,
  bring the counter from 1 to 0 and combine: the file of the result holds \<^verbatim>\<open>5\<close>.
\<close>

lemma result_round_when_bound:
  "snd (worker_step (example_env\<lparr>module_names := [''deserialized_msg'' \<mapsto> example_result]\<rparr>)
          busy_master (rcv result_message)) = None
   \<and> map_option pending_taskunits
        (jobs (fst (worker_step
                 (example_env\<lparr>module_names := [''deserialized_msg'' \<mapsto> example_result]\<rparr>)
                 busy_master (rcv result_message))) (PyStr (str ''job1''))) = Some (Some 0)
   \<and> disk (fst (worker_step
                 (example_env\<lparr>module_names := [''deserialized_msg'' \<mapsto> example_result]\<rparr>)
                 busy_master (rcv result_message))) (str ''result_2026-11-04_12:00:00'') =
       Some (str ''5'')"
  unfolding busy_master_def
  by (simp add: job_round example_id_1 example_result_def on_taskunit_result_def
      result_message_def dict_get_def dict_values_def call_combine_def Combiner_combine_def
      new_Combiner_def add_taskunits_def py_sum_def json_dumps_def)





end
